theory Spec2Isabelle
  imports Main "HOL-Library.Word" "HOL-Library.Sublist" "HOL-Library.Multiset"
begin

section \<open>JavaScript strings\<close>

text \<open>
  A JavaScript string is a sequence of UTF-16 code units. None of the regular
  expressions of the feed script carries the \<open>u\<close> flag, so \<open>slice\<close>, \<open>split\<close>,
  \<open>indexOf\<close>, \<open>startsWith\<close> and the patterns all work on code units, and a
  string is modelled as a list of 16-bit words.
\<close>

type_synonym jschar = "16 word"
type_synonym jsstring = "jschar list"

definition js :: "string \<Rightarrow> jsstring" where
  "js s = map (\<lambda>c. of_nat (of_char c)) s"

definition NL :: jschar where
  "NL = 0x0A"

definition COLON :: jschar where
  "COLON = 0x3A"

definition HASH :: jschar where
  "HASH = 0x23"

text \<open>
  \<open>String.prototype.trim\<close> removes WhiteSpace and LineTerminator code points
  (ECMAScript 2023, 22.1.3.32): TAB, VT, FF, SP, NBSP, ZWNBSP, the category Zs,
  LF, CR, LS and PS.
\<close>

definition isWhiteSpace :: "jschar \<Rightarrow> bool" where
  "isWhiteSpace c =
     (c \<in> {0x09, 0x0A, 0x0B, 0x0C, 0x0D, 0x20, 0xA0, 0x1680, 0x2028, 0x2029,
            0x202F, 0x205F, 0x3000, 0xFEFF}
      \<or> (0x2000 \<le> c \<and> c \<le> 0x200A))"

definition trim :: "jsstring \<Rightarrow> jsstring" where
  "trim s = rev (dropWhile isWhiteSpace (rev (dropWhile isWhiteSpace s)))"

text \<open>\<open>s.indexOf(c)\<close> for a one-character needle; \<open>None\<close> stands for \<open>-1\<close>.\<close>

fun indexOf :: "jschar \<Rightarrow> jsstring \<Rightarrow> nat option" where
  "indexOf c [] = None"
| "indexOf c (x # xs) = (if x = c then Some 0 else map_option Suc (indexOf c xs))"

text \<open>
  The first occurrence of a literal \<open>d\<close> in \<open>s\<close>: the text before it and the
  text after it. This is what a lazy \<open>[\s\S]*?\<close> followed by a literal matches.
\<close>

fun breakOn :: "jsstring \<Rightarrow> jsstring \<Rightarrow> (jsstring \<times> jsstring) option" where
  "breakOn d [] = (if d = [] then Some ([], []) else None)"
| "breakOn d (c # cs) =
     (if prefix d (c # cs) then Some ([], drop (length d) (c # cs))
      else map_option (\<lambda>(b, a). (c # b, a)) (breakOn d cs))"

definition includesStr :: "jsstring \<Rightarrow> jsstring \<Rightarrow> bool" where
  "includesStr d s = (breakOn d s \<noteq> None)"

text \<open>
  \<open>s.split(sep)\<close> for a non-empty separator: \<open>cur\<close> collects the piece being
  read. (With an empty separator JavaScript splits into code units; the script
  never does that, and the model then returns the whole string.)
\<close>

fun split :: "jsstring \<Rightarrow> jsstring \<Rightarrow> jsstring \<Rightarrow> jsstring list" where
  "split sep cur [] = [cur]"
| "split sep cur (c # cs) =
     (if sep \<noteq> [] \<and> prefix sep (c # cs)
      then cur # split sep [] (drop (length sep - 1) cs)
      else split sep (cur @ [c]) cs)"

definition splitStr :: "jsstring \<Rightarrow> jsstring \<Rightarrow> jsstring list" where
  "splitStr sep s = split sep [] s"

text \<open>\<open>xs.join(sep)\<close>.\<close>

fun joinStr :: "jsstring \<Rightarrow> jsstring list \<Rightarrow> jsstring" where
  "joinStr sep [] = []"
| "joinStr sep [x] = x"
| "joinStr sep (x # y # ys) = x @ sep @ joinStr sep (y # ys)"

text \<open>\<open>a || b\<close> on strings: the empty string is the only falsy string.\<close>

definition orElse :: "jsstring \<Rightarrow> jsstring \<Rightarrow> jsstring" where
  "orElse a b = (if a \<noteq> [] then a else b)"

section \<open>The feed script: front matter\<close>

text \<open>
  The field \<open>id\<close> of the source is written \<open>id'\<close>: \<open>id\<close> is the identity
  function of HOL.
\<close>

record PostMeta =
  id' :: jsstring
  title :: jsstring
  category :: jsstring
  date :: "jsstring option"
  tags :: "jsstring list option"

text \<open>
  \<open>content.match(/^---\n([\s\S]*?)\n---/)\<close>: the capture group, or \<open>None\<close> when
  the pattern does not match.
\<close>

definition matchFrontMatter :: "jsstring \<Rightarrow> jsstring option" where
  "matchFrontMatter content =
     (if prefix (js ''---'' @ [NL]) content
      then map_option fst (breakOn (NL # js ''---'') (drop 4 content))
      else None)"

text \<open>
  The body of the \<open>forEach\<close>: one header line updates the \<open>frontMatter\<close>
  object. Only the five keys read by the \<open>return\<close> statement are ever looked
  up, so the properties an object inherits play no role.
\<close>

definition parseLine :: "(jsstring \<rightharpoonup> jsstring) \<Rightarrow> jsstring \<Rightarrow> (jsstring \<rightharpoonup> jsstring)" where
  "parseLine frontMatter line =
     (case indexOf COLON line of
        None \<Rightarrow> frontMatter
      | Some colonIndex \<Rightarrow>
          frontMatter(trim (take colonIndex line) \<mapsto> trim (drop (colonIndex + 1) line)))"

definition parseLines :: "jsstring list \<Rightarrow> (jsstring \<rightharpoonup> jsstring)" where
  "parseLines ls = foldl parseLine Map.empty ls"

text \<open>\<open>frontMatter.k || ''\<close>.\<close>

definition field :: "(jsstring \<rightharpoonup> jsstring) \<Rightarrow> jsstring \<Rightarrow> jsstring" where
  "field frontMatter k = (case frontMatter k of None \<Rightarrow> [] | Some v \<Rightarrow> orElse v [])"

text \<open>The object of the \<open>return\<close> statement.\<close>

definition toPostMeta :: "(jsstring \<rightharpoonup> jsstring) \<Rightarrow> PostMeta" where
  "toPostMeta frontMatter =
     \<lparr> id' = field frontMatter (js ''id''),
       title = field frontMatter (js ''title''),
       category = field frontMatter (js ''category''),
       date = frontMatter (js ''date''),
       tags = map_option (\<lambda>v. map trim (splitStr (js '','') v))
                (frontMatter (js ''tags'')) \<rparr>"

definition parseFrontMatter :: "jsstring \<Rightarrow> PostMeta option" where
  "parseFrontMatter content =
     (case matchFrontMatter content of
        None \<Rightarrow> None
      | Some header \<Rightarrow> Some (toPostMeta (parseLines (splitStr [NL] header))))"

section \<open>The feed script: excerpt\<close>

text \<open>\<open>content.replace(/^---[\s\S]*?---\n/, '')\<close>.\<close>

definition stripFrontMatter :: "jsstring \<Rightarrow> jsstring" where
  "stripFrontMatter content =
     (if prefix (js ''---'') content
      then (case breakOn (js ''---'' @ [NL]) (drop 3 content) of
              None \<Rightarrow> content
            | Some (skipped, rest) \<Rightarrow> rest)
      else content)"

text \<open>The predicate given to \<open>find\<close>.\<close>

definition isExcerptParagraph :: "jsstring \<Rightarrow> bool" where
  "isExcerptParagraph p =
     (trim p \<noteq> [] \<and> \<not> prefix (js ''#'') p \<and> \<not> prefix (js ''!'') p)"

text \<open>The character class \<open>[#*`\[\]]\<close>.\<close>

definition isMarkup :: "jschar \<Rightarrow> bool" where
  "isMarkup c = (c \<in> {0x23, 0x2A, 0x60, 0x5B, 0x5D})"

definition stripMarkup :: "jsstring \<Rightarrow> jsstring" where
  "stripMarkup s = filter (\<lambda>c. \<not> isMarkup c) s"

text \<open>
  \<open>v + s\<close> where \<open>v\<close> is the value of an optional chain: \<open>None\<close> is
  \<open>undefined\<close>, which \<open>+\<close> converts to the string \<open>undefined\<close>.
\<close>

definition plusStr :: "jsstring option \<Rightarrow> jsstring \<Rightarrow> jsstring" where
  "plusStr v s = (case v of None \<Rightarrow> js ''undefined'' @ s | Some t \<Rightarrow> t @ s)"

text \<open>The two statements after the front matter is removed, on the body.\<close>

definition firstPara :: "jsstring \<Rightarrow> jsstring option" where
  "firstPara body = List.find isExcerptParagraph (splitStr [NL, NL] body)"

definition excerptOfBody :: "jsstring \<Rightarrow> jsstring" where
  "excerptOfBody body =
     orElse
       (plusStr (map_option (\<lambda>p. stripMarkup (take 200 p)) (firstPara body)) (js ''...''))
       []"

definition getExcerpt :: "jsstring \<Rightarrow> jsstring" where
  "getExcerpt content = excerptOfBody (stripFrontMatter content)"

section \<open>The feed script: XML escaping\<close>

text \<open>\<open>s.replace(/c/g, r)\<close> for a one-character pattern.\<close>

definition replaceAll :: "jschar \<Rightarrow> jsstring \<Rightarrow> jsstring \<Rightarrow> jsstring" where
  "replaceAll c r s = concat (map (\<lambda>x. if x = c then r else [x]) s)"

definition escapeXml :: "jsstring \<Rightarrow> jsstring" where
  "escapeXml text =
     replaceAll 0x27 (js ''&apos;'')
       (replaceAll 0x22 (js ''&quot;'')
         (replaceAll 0x3E (js ''&gt;'')
           (replaceAll 0x3C (js ''&lt;'')
             (replaceAll 0x26 (js ''&amp;'') text))))"

section \<open>The feed script: loading, sorting and emitting the posts\<close>

record RssPost = PostMeta +
  excerpt :: jsstring

text \<open>
  The loop over the files of the posts directory, given as the list of
  (file name, file content) in the order \<open>readdirSync\<close> returns them.
\<close>

fun loadPosts :: "(jsstring \<times> jsstring) list \<Rightarrow> RssPost list" where
  "loadPosts [] = []"
| "loadPosts ((file, content) # files) =
     (if suffix (js ''.md'') file
      then (case parseFrontMatter content of
              None \<Rightarrow> loadPosts files
            | Some meta \<Rightarrow>
                \<lparr> id' = id' meta, title = title meta, category = category meta,
                  date = date meta, tags = tags meta, excerpt = getExcerpt content \<rparr>
                # loadPosts files)
      else loadPosts files)"

text \<open>\<open>!d\<close> for an optional string: \<open>undefined\<close> and the empty string are falsy.\<close>

definition falsy :: "jsstring option \<Rightarrow> bool" where
  "falsy d = (case d of None \<Rightarrow> True | Some s \<Rightarrow> s = [])"

text \<open>
  The comparator. How \<open>new Date(s)\<close> reads a string that is not in the ISO
  format is left to the implementation, so \<open>getTime\<close> is a parameter: the time
  value of \<open>new Date(s).getTime()\<close> in milliseconds, \<open>None\<close> for \<open>NaN\<close>. Time
  values are integers of magnitude at most 8.64e15, so the sign of the
  floating-point difference is the sign of the integer difference. A
  difference with a \<open>NaN\<close> operand is \<open>NaN\<close>.
\<close>

definition compareDates :: "(jsstring \<Rightarrow> int option) \<Rightarrow> RssPost \<Rightarrow> RssPost \<Rightarrow> int option" where
  "compareDates getTime a b =
     (if falsy (date a) \<or> falsy (date b) then Some 0
      else (case (date b, date a) of
              (Some db, Some da) \<Rightarrow>
                (case (getTime db, getTime da) of
                   (Some tb, Some ta) \<Rightarrow> Some (tb - ta)
                 | _ \<Rightarrow> None)
            | _ \<Rightarrow> Some 0))"

text \<open>
  \<open>Array.prototype.sort(comparefn)\<close>. ECMAScript (23.1.3.30) requires the sort
  to be stable and reads a \<open>NaN\<close> from the comparator as \<open>+0\<close>. For a consistent
  comparator this fixes the result, whatever the algorithm; for an inconsistent
  one the order is implementation-defined. The model is the stable insertion
  sort.
\<close>

definition sortCompare :: "('a \<Rightarrow> 'a \<Rightarrow> int option) \<Rightarrow> 'a \<Rightarrow> 'a \<Rightarrow> int" where
  "sortCompare comparefn x y = (case comparefn x y of None \<Rightarrow> 0 | Some v \<Rightarrow> v)"

fun insertSorted :: "('a \<Rightarrow> 'a \<Rightarrow> int option) \<Rightarrow> 'a \<Rightarrow> 'a list \<Rightarrow> 'a list" where
  "insertSorted comparefn x [] = [x]"
| "insertSorted comparefn x (y # ys) =
     (if sortCompare comparefn x y \<le> 0 then x # y # ys
      else y # insertSorted comparefn x ys)"

definition sortArray :: "('a \<Rightarrow> 'a \<Rightarrow> int option) \<Rightarrow> 'a list \<Rightarrow> 'a list" where
  "sortArray comparefn xs = foldr (insertSorted comparefn) xs []"

text \<open>The posts in the order in which \<open>posts.map\<close> emits their items.\<close>

definition sortedPosts :: "(jsstring \<Rightarrow> int option) \<Rightarrow> (jsstring \<times> jsstring) list \<Rightarrow> RssPost list" where
  "sortedPosts getTime files = sortArray (compareDates getTime) (loadPosts files)"

definition SITE_URL :: jsstring where
  "SITE_URL = js ''https://0x1907.netlify.app''"

text \<open>
  One item of the feed; \<open>toUTCString\<close> stands for
  \<open>new Date(s).toUTCString()\<close>.
\<close>

definition rssItem :: "(jsstring \<Rightarrow> jsstring) \<Rightarrow> RssPost \<Rightarrow> jsstring" where
  "rssItem toUTCString post =
     [NL] @ js ''    <item>'' @ [NL]
     @ js ''      <title>'' @ escapeXml (title post) @ js ''</title>'' @ [NL]
     @ js ''      <link>'' @ SITE_URL @ js ''/blog/'' @ id' post @ js ''</link>'' @ [NL]
     @ js ''      <guid>'' @ SITE_URL @ js ''/blog/'' @ id' post @ js ''</guid>'' @ [NL]
     @ js ''      <description>'' @ escapeXml (excerpt post) @ js ''</description>'' @ [NL]
     @ js ''      <category>'' @ escapeXml (category post) @ js ''</category>'' @ [NL]
     @ js ''      ''
     @ (case date post of
          None \<Rightarrow> []
        | Some d \<Rightarrow> if d = [] then []
                    else js ''<pubDate>'' @ toUTCString d @ js ''</pubDate>'')
     @ [NL] @ js ''    </item>''"

definition emittedItems ::
  "(jsstring \<Rightarrow> int option) \<Rightarrow> (jsstring \<Rightarrow> jsstring) \<Rightarrow> (jsstring \<times> jsstring) list
     \<Rightarrow> jsstring list" where
  "emittedItems getTime toUTCString files =
     map (rssItem toUTCString) (sortedPosts getTime files)"

definition rssItems ::
  "(jsstring \<Rightarrow> int option) \<Rightarrow> (jsstring \<Rightarrow> jsstring) \<Rightarrow> (jsstring \<times> jsstring) list \<Rightarrow> jsstring" where
  "rssItems getTime toUTCString files = joinStr [NL] (emittedItems getTime toUTCString files)"

section \<open>The block model\<close>

datatype BlockType =
  Paragraph | Heading | Code | ListBlock | OrderedList | Blockquote | Divider
  | InlineCode | Image | Table | Callout

text \<open>The type \<open>1 | 2 | 3\<close> of the field \<open>level\<close>.\<close>

datatype Level = L1 | L2 | L3

fun levelValue :: "Level \<Rightarrow> nat" where
  "levelValue L1 = 1"
| "levelValue L2 = 2"
| "levelValue L3 = 3"

datatype CalloutVariant = Note | Tip | Warning | Question

text \<open>
  The field \<open>type\<close> of the source is written \<open>blockType\<close>.
\<close>

record ContentBlock =
  blockType :: BlockType
  content :: "jsstring option"
  level :: "Level option"
  language :: "jsstring option"
  filename :: "jsstring option"
  items :: "jsstring list option"
  alt :: "jsstring option"
  caption :: "jsstring option"
  tableHeaders :: "jsstring list option"
  tableRows :: "jsstring list list option"
  calloutVariant :: "CalloutVariant option"
  calloutTitle :: "jsstring option"

record BlogPost = PostMeta +
  content :: "ContentBlock list"

text \<open>
  \<open>PostMetadata\<close> declares the fields of \<open>PostMeta\<close> with the same types; the
  two interfaces are one structural type.
\<close>

type_synonym PostMetadata = PostMeta

definition emptyBlock :: "BlockType \<Rightarrow> ContentBlock" where
  "emptyBlock t =
     \<lparr> blockType = t, content = None, level = None, language = None, filename = None,
       items = None, alt = None, caption = None, tableHeaders = None,
       tableRows = None, calloutVariant = None, calloutTitle = None \<rparr>"

text \<open>
  Modelled from the spec: the number of \<open>#\<close> a line starts with, which the
  heading rule of the block segmenter counts (section 4.2). The parser,
  \<open>@/lib/markdown\<close>, is not among the sources, which hold only the declaration
  of \<open>ContentBlock\<close>.
\<close>

definition hashCount :: "jsstring \<Rightarrow> nat" where
  "hashCount line = length (takeWhile (\<lambda>c. c = HASH) line)"

text \<open>
  Modelled from the spec: the level of a heading, the count of \<open>#\<close> clamped
  to 1, 2 or 3 (section 4.2), in the absent parser.
\<close>

definition clampLevel :: "nat \<Rightarrow> Level" where
  "clampLevel n = (if n \<le> 1 then L1 else if n = 2 then L2 else L3)"

text \<open>
  Modelled from the spec: the heading rule of the absent parser's block
  segmenter and classifier (sections 4.2 and 8). A line of one to three \<open>#\<close>
  followed by a space is a heading whose level is the number of \<open>#\<close>. For
  four or more \<open>#\<close> the spec allows two policies, a heading of level 3 or the
  paragraph fallback; \<open>clamp\<close> chooses the first. Every other rule yields a
  block without \<open>level\<close> (section 3), as the paragraph does.
\<close>

definition classifyLine :: "bool \<Rightarrow> jsstring \<Rightarrow> ContentBlock" where
  "classifyLine clamp line =
     (let n = hashCount line
      in if 1 \<le> n \<and> prefix (js '' '') (drop n line) \<and> (n \<le> 3 \<or> clamp)
         then (emptyBlock Heading)
                \<lparr> ContentBlock.content := Some (trim (drop (n + 1) line)),
                  level := Some (clampLevel n) \<rparr>
         else (emptyBlock Paragraph) \<lparr> ContentBlock.content := Some (trim line) \<rparr>)"

section \<open>The page component\<close>

text \<open>
  The state of \<open>Index\<close> (its \<open>useState\<close> cells) and its first effect. The
  effect awaits \<open>loadPostsMetadata()\<close>, whose outcome is an argument: the
  metadata, or the error of a rejected promise, which the \<open>catch\<close> logs.
  \<open>postId\<close> is the route parameter, \<open>None\<close> when the route has none.
\<close>

datatype LoadError = LoadError

record IndexState =
  postsMetadata :: "PostMetadata list"
  activePost :: "BlogPost option"
  activePostId :: jsstring
  loading :: bool
  postLoading :: bool
  notFound :: bool
  sidebarOpen :: bool

definition initialState :: IndexState where
  "initialState =
     \<lparr> postsMetadata = [], activePost = None, activePostId = [], loading = True,
       postLoading = False, notFound = False, sidebarOpen = True \<rparr>"

definition loadMetadata ::
  "LoadError + PostMetadata list \<Rightarrow> jsstring option \<Rightarrow> IndexState \<Rightarrow> IndexState" where
  "loadMetadata outcome postId s =
     (case outcome of
        Inl e \<Rightarrow> s\<lparr>loading := False\<rparr>
      | Inr metadata \<Rightarrow>
          (let s1 = s\<lparr>postsMetadata := metadata\<rparr>;
               s2 = (case postId of
                       Some pid \<Rightarrow>
                         if pid \<noteq> [] then
                           (if list_ex (\<lambda>p. id' p = pid) metadata
                            then s1\<lparr>activePostId := pid, notFound := False\<rparr>
                            else s1\<lparr>notFound := True\<rparr>)
                         else (case metadata of
                                 [] \<Rightarrow> s1
                               | m # ms \<Rightarrow> s1\<lparr>activePostId := id' m, notFound := False\<rparr>)
                     | None \<Rightarrow>
                         (case metadata of
                            [] \<Rightarrow> s1
                          | m # ms \<Rightarrow> s1\<lparr>activePostId := id' m, notFound := False\<rparr>))
           in s2\<lparr>loading := False\<rparr>))"

text \<open>
  The second effect: it returns at once while \<open>activePostId\<close> is empty, and
  otherwise stores what \<open>loadPostById\<close> resolves to.
\<close>

definition loadPost :: "LoadError + BlogPost option \<Rightarrow> IndexState \<Rightarrow> IndexState" where
  "loadPost outcome s =
     (if activePostId s = [] then s
      else (case outcome of
              Inl e \<Rightarrow> s\<lparr>postLoading := False\<rparr>
            | Inr post \<Rightarrow> s\<lparr>activePost := post, postLoading := False\<rparr>))"

text \<open>Which of the three \<open>return\<close> statements of the component renders.\<close>

datatype Page = LoadingPage | NotFoundPage | PostsPage

definition render :: "IndexState \<Rightarrow> Page" where
  "render s = (if loading s then LoadingPage else if notFound s then NotFoundPage else PostsPage)"

section \<open>Reference notions of the claims\<close>

text \<open>
  The substitution table of the claim on \<open>escapeXml\<close>: each of the five
  characters with its entity, every other character unchanged.
\<close>

definition entityOf :: "jschar \<Rightarrow> jsstring" where
  "entityOf c =
     (if c = 0x26 then js ''&amp;''
      else if c = 0x3C then js ''&lt;''
      else if c = 0x3E then js ''&gt;''
      else if c = 0x22 then js ''&quot;''
      else if c = 0x27 then js ''&apos;''
      else [c])"

text \<open>
  A header line that declares the key \<open>k\<close> with the text \<open>v\<close>; the keys such
  a line can carry: no colon or line break inside, and not the start of a
  delimiter; and the value a list of declarations gives a key, which is read
  without its surrounding whitespace.
\<close>

definition headerLine :: "jsstring \<times> jsstring \<Rightarrow> jsstring" where
  "headerLine kv = fst kv @ COLON # snd kv"

definition plainKey :: "jsstring \<Rightarrow> bool" where
  "plainKey k = (NL \<notin> set k \<and> COLON \<notin> set k \<and> \<not> prefix (js ''---'') k)"

definition declaredValue :: "(jsstring \<times> jsstring) list \<Rightarrow> jsstring \<Rightarrow> jsstring option" where
  "declaredValue kvs k = map_of (map (\<lambda>kv. (trim (fst kv), snd kv)) kvs) k"

text \<open>
  A document whose header consists of the given lines: the opening
  delimiter line, the lines, the closing delimiter, and any text after it.
\<close>

definition document :: "jsstring list \<Rightarrow> jsstring \<Rightarrow> jsstring" where
  "document ls rest = js ''---'' @ [NL] @ joinStr [NL] ls @ [NL] @ js ''---'' @ rest"

text \<open>
  The parsed date of a post, \<open>new Date(post.date).getTime()\<close>, and the
  comparison \<open>>=\<close> of two time values, which is false when either is \<open>NaN\<close>.
\<close>

definition timeOf :: "(jsstring \<Rightarrow> int option) \<Rightarrow> RssPost \<Rightarrow> int option" where
  "timeOf getTime p = (case date p of None \<Rightarrow> None | Some d \<Rightarrow> getTime d)"

definition notBefore :: "int option \<Rightarrow> int option \<Rightarrow> bool" where
  "notBefore a b = (case (a, b) of (Some x, Some y) \<Rightarrow> y \<le> x | _ \<Rightarrow> False)"

text \<open>Every adjacent pair of the list is in the relation.\<close>

fun adjacent :: "('a \<Rightarrow> 'a \<Rightarrow> bool) \<Rightarrow> 'a list \<Rightarrow> bool" where
  "adjacent R (x # y # ys) = (R x y \<and> adjacent R (y # ys))"
| "adjacent R ys = True"

text \<open>
  The time values of the date strings of the examples: the two ISO dates as
  ECMAScript (21.4.1.32) fixes them, milliseconds since the epoch in UTC, and
  \<open>NaN\<close> for a text \<open>Date\<close> does not read.
\<close>

definition exampleTime :: "jsstring \<Rightarrow> int option" where
  "exampleTime d =
     (if d = js ''2025-01-01'' then Some 1735689600000
      else if d = js ''2026-01-01'' then Some 1767225600000
      else None)"

section \<open>Facts about the string operations\<close>

lemma indexOf_first: "c \<notin> set k \<Longrightarrow> indexOf c (k @ c # v) = Some (length k)"
  by (induction k) auto

lemma indexOf_none: "c \<notin> set l \<Longrightarrow> indexOf c l = None"
  by (induction l) auto


lemma breakOn_skip:
  "x \<notin> set v \<Longrightarrow> breakOn (x # d) (v @ s) = map_option (\<lambda>(b, a). (v @ b, a)) (breakOn (x # d) s)"
proof (induction v)
  case Nil
  show ?case by (cases "breakOn (x # d) s") auto
next
  case (Cons c v)
  then show ?case by (auto simp: option.map_comp comp_def case_prod_unfold)
qed

lemma breakOn_absent: "x \<notin> set s \<Longrightarrow> breakOn (x # d) s = None"
  by (induction s) auto

lemma not_prefix_ext:
  "\<not> prefix p y \<Longrightarrow> c \<notin> set p \<Longrightarrow> \<not> prefix p (y @ c # r)"
  by (auto simp: prefix_append prefix_Cons)

lemma breakOn_not_included: "\<not> includesStr d s \<Longrightarrow> breakOn d s = None"
  unfolding includesStr_def by blast





lemma split_breakOn:
  "sep \<noteq> [] \<Longrightarrow>
   split sep cur s = (case breakOn sep s of
                        None \<Rightarrow> [cur @ s]
                      | Some (b, a) \<Rightarrow> (cur @ b) # split sep [] a)"
proof (induction s arbitrary: cur)
  case Nil
  then show ?case by simp
next
  case (Cons c cs)
  show ?case
  proof (cases "prefix sep (c # cs)")
    case True
    with Cons.prems show ?thesis by (cases sep) auto
  next
    case False
    with Cons show ?thesis by (auto split: option.splits)
  qed
qed

lemma split_lines:
  "ls \<noteq> [] \<Longrightarrow> \<forall>l \<in> set ls. c \<notin> set l \<Longrightarrow> splitStr [c] (joinStr [c] ls) = ls"
proof (induction "[c]" ls rule: joinStr.induct)
  case 1
  then show ?case by simp
next
  case (2 x)
  then show ?case by (simp add: splitStr_def split_breakOn breakOn_absent)
next
  case (3 x y ys)
  then show ?case
    by (simp add: splitStr_def split_breakOn [of "[c]" "[]"] breakOn_skip)
qed

lemma orElse_Nil: "orElse a [] = a"
  by (simp add: orElse_def)

text \<open>The definitions a concrete document is evaluated with.\<close>

lemmas eval_defs = parseFrontMatter_def matchFrontMatter_def toPostMeta_def parseLines_def
  parseLine_def field_def orElse_def splitStr_def document_def headerLine_def
  stripFrontMatter_def getExcerpt_def excerptOfBody_def firstPara_def isExcerptParagraph_def
  trim_def isWhiteSpace_def stripMarkup_def isMarkup_def plusStr_def js_def NL_def COLON_def
  suffix_def

section \<open>Front matter\<close>

lemma parseLine_colon:
  "COLON \<notin> set k \<Longrightarrow> parseLine fm (k @ COLON # v) = fm(trim k \<mapsto> trim v)"
  by (simp add: parseLine_def indexOf_first)

lemma parseLine_skip: "COLON \<notin> set l \<Longrightarrow> parseLine fm l = fm"
  by (simp add: parseLine_def indexOf_none)

lemma joinStr_Cons_shape:
  "\<exists>r'. joinStr [c] (y # ys) @ c # r = y @ c # r'"
  by (cases ys) auto

lemma breakOn_header:
  "\<forall>l \<in> set ls. NL \<notin> set l \<and> \<not> prefix (js ''---'') l \<Longrightarrow>
   breakOn (NL # js ''---'') (joinStr [NL] ls @ NL # js ''---'' @ rest)
     = Some (joinStr [NL] ls, rest)"
proof (induction "[NL]" ls rule: joinStr.induct)
  case 1
  show ?case by (simp add: js_def)
next
  case (2 x)
  then show ?case by (simp add: breakOn_skip js_def)
next
  case (3 x y ys)
  obtain r' where r': "joinStr [NL] (y # ys) @ NL # js ''---'' @ rest = y @ NL # r'"
    using joinStr_Cons_shape by blast
  have "\<not> prefix (js ''---'') (y @ NL # r')"
    using 3 by (intro not_prefix_ext) (auto simp: js_def NL_def)
  with r' have np: "\<not> prefix (NL # js ''---'') (NL # joinStr [NL] (y # ys) @ NL # js ''---'' @ rest)"
    by simp
  have ih: "breakOn (NL # js ''---'') (joinStr [NL] (y # ys) @ NL # js ''---'' @ rest)
            = Some (joinStr [NL] (y # ys), rest)"
    using 3 by simp
  have "breakOn (NL # js ''---'') (NL # joinStr [NL] (y # ys) @ NL # js ''---'' @ rest)
        = Some (NL # joinStr [NL] (y # ys), rest)"
    using np ih by simp
  then show ?case using 3 by (simp add: breakOn_skip)
qed

lemma parseLines_lookup:
  "distinct (map (\<lambda>kv. trim (fst kv)) kvs) \<Longrightarrow> \<forall>kv \<in> set kvs. COLON \<notin> set (fst kv) \<Longrightarrow>
   foldl parseLine fm (map headerLine kvs) key
     = (case declaredValue kvs key of None \<Rightarrow> fm key | Some v \<Rightarrow> Some (trim v))"
proof (induction kvs arbitrary: fm)
  case Nil
  show ?case by (simp add: declaredValue_def)
next
  case (Cons kv kvs)
  obtain k v where kv: "kv = (k, v)" by (cases kv)
  have "trim k \<notin> (\<lambda>kv. trim (fst kv)) ` set kvs"
    using Cons.prems(1) kv by simp
  then have nk: "declaredValue kvs (trim k) = None"
    by (simp add: declaredValue_def map_of_eq_None_iff image_image)
  have ih: "foldl parseLine (fm(trim k \<mapsto> trim v)) (map headerLine kvs) key
            = (case declaredValue kvs key of
                 None \<Rightarrow> (fm(trim k \<mapsto> trim v)) key
               | Some v' \<Rightarrow> Some (trim v'))"
    using Cons by simp
  have step: "parseLine fm (headerLine kv) = fm(trim k \<mapsto> trim v)"
    using Cons.prems(2) kv by (simp add: headerLine_def parseLine_colon)
  have dv: "declaredValue (kv # kvs) key = (if key = trim k then Some v else declaredValue kvs key)"
    using kv by (simp add: declaredValue_def)
  show ?case
    using ih nk by (auto simp: step dv split: option.splits)
qed

lemma matchFrontMatter_document:
  "\<forall>l \<in> set ls. NL \<notin> set l \<and> \<not> prefix (js ''---'') l \<Longrightarrow>
   matchFrontMatter (document ls rest) = Some (joinStr [NL] ls)"
  using breakOn_header [of ls rest]
  by (simp add: matchFrontMatter_def document_def js_def)

lemma parseFrontMatter_document:
  "ls \<noteq> [] \<Longrightarrow> \<forall>l \<in> set ls. NL \<notin> set l \<and> \<not> prefix (js ''---'') l \<Longrightarrow>
   parseFrontMatter (document ls rest) = Some (toPostMeta (parseLines ls))"
  by (simp add: parseFrontMatter_def matchFrontMatter_document split_lines)

lemma headerLine_ok:
  assumes "plainKey (fst kv)" and "NL \<notin> set (snd kv)"
  shows "NL \<notin> set (headerLine kv) \<and> \<not> prefix (js ''---'') (headerLine kv)"
proof -
  have "COLON \<notin> set (js ''---'')"
    by (simp add: js_def COLON_def)
  then have "\<not> prefix (js ''---'') (fst kv @ COLON # snd kv)"
    using assms(1) by (intro not_prefix_ext) (simp_all add: plainKey_def)
  moreover have "NL \<notin> set (fst kv @ COLON # snd kv)"
    using assms by (simp add: plainKey_def NL_def COLON_def)
  ultimately show ?thesis by (simp add: headerLine_def)
qed

lemma matchFrontMatter_unclosed:
  "\<not> includesStr (NL # js ''---'') rest \<Longrightarrow> matchFrontMatter (js ''---'' @ [NL] @ rest) = None"
  using breakOn_not_included [of "NL # js ''---''" rest]
  by (simp add: matchFrontMatter_def js_def)

lemma loadPosts_append: "loadPosts (xs @ ys) = loadPosts xs @ loadPosts ys"
  by (induction xs rule: loadPosts.induct) (auto split: option.splits)

text \<open>
  Claim C1, as amended. A document with line breaks LF whose header, between
  the delimiter lines, consists of lines \<open>key:value\<close>, no key beginning with
  \<open>---\<close> or holding a colon or a line break, each key (read without
  surrounding whitespace) declared once and each value on its line, and
  which declares \<open>id\<close>, \<open>title\<close>, \<open>category\<close>, \<open>date\<close> and
  \<open>tags\<close>, in any order and among any other keys: \<open>parseFrontMatter\<close> returns
  exactly the declared values, each trimmed of surrounding whitespace, and
  \<open>tags\<close> is the declared value split at the commas with every tag trimmed.
\<close>

theorem parseFrontMatter_roundtrip:
  assumes "distinct (map (\<lambda>kv. trim (fst kv)) kvs)"
    and "\<forall>kv \<in> set kvs. plainKey (fst kv) \<and> NL \<notin> set (snd kv)"
    and "declaredValue kvs (js ''id'') = Some i"
    and "declaredValue kvs (js ''title'') = Some t"
    and "declaredValue kvs (js ''category'') = Some c"
    and "declaredValue kvs (js ''date'') = Some d"
    and "declaredValue kvs (js ''tags'') = Some g"
  shows "parseFrontMatter (document (map headerLine kvs) rest)
         = Some \<lparr> id' = trim i, title = trim t, category = trim c, date = Some (trim d),
                  tags = Some (map trim (splitStr (js '','') (trim g))) \<rparr>"
proof -
  have ne: "map headerLine kvs \<noteq> []"
    using assms(3) by (auto simp: declaredValue_def)
  have ok: "\<forall>l \<in> set (map headerLine kvs). NL \<notin> set l \<and> \<not> prefix (js ''---'') l"
    using assms(2) headerLine_ok by auto
  have keys: "\<forall>kv \<in> set kvs. COLON \<notin> set (fst kv)"
    using assms(2) by (simp add: plainKey_def)
  have look: "parseLines (map headerLine kvs) key
              = (case declaredValue kvs key of None \<Rightarrow> None | Some v \<Rightarrow> Some (trim v))" for key
    unfolding parseLines_def using parseLines_lookup [OF assms(1) keys] by simp
  show ?thesis
    using assms(3-7)
    by (simp add: parseFrontMatter_document [OF ne ok] toPostMeta_def field_def look orElse_Nil)
qed

theorem parseFrontMatter_roundtrip_witness:
  "parseFrontMatter
     (document
        (map headerLine
           [(js ''title'', js '' Building a CLI: part 1''), (js ''id'', js '' rust-cli''),
            (js ''category'', js '' Systems''), (js ''author'', js '' nobody''),
            (js ''date '', js '' February 5, 2026''), (js ''tags'', js '' Rust, CLI ,Tutorial'')])
        (NL # NL # js ''Body''))
   = Some \<lparr> id' = js ''rust-cli'', title = js ''Building a CLI: part 1'',
              category = js ''Systems'', date = Some (js ''February 5, 2026''),
              tags = Some [js ''Rust'', js ''CLI'', js ''Tutorial''] \<rparr>"
  using parseFrontMatter_roundtrip
    [of "[(js ''title'', js '' Building a CLI: part 1''), (js ''id'', js '' rust-cli''),
          (js ''category'', js '' Systems''), (js ''author'', js '' nobody''),
          (js ''date '', js '' February 5, 2026''), (js ''tags'', js '' Rust, CLI ,Tutorial'')]"
        "js '' rust-cli''" "js '' Building a CLI: part 1''" "js '' Systems''"
        "js '' February 5, 2026''" "js '' Rust, CLI ,Tutorial''" "NL # NL # js ''Body''"]
  by (simp add: plainKey_def declaredValue_def trim_def isWhiteSpace_def splitStr_def js_def
      NL_def COLON_def)

text \<open>
  The claim as written fails on two documents that declare the five fields.
  In the first the line breaks are CR LF: the pattern asks for LF after the
  opening \<open>---\<close>, and there is no metadata at all. In the second a header
  line begins with \<open>---\<close>: the pattern takes it for the closing delimiter,
  and the fields declared after it are lost.
\<close>

theorem parseFrontMatter_roundtrip_counterexample:
  "parseFrontMatter
     (js ''---'' @ [0x0D, NL] @ js ''id: a'' @ [0x0D, NL] @ js ''title: T'' @ [0x0D, NL]
      @ js ''category: C'' @ [0x0D, NL] @ js ''date: D'' @ [0x0D, NL] @ js ''tags: x''
      @ [0x0D, NL] @ js ''---'' @ [0x0D, NL] @ js ''Body'') = None
   \<and> parseFrontMatter
       (document
          (map headerLine
             [(js ''id'', js '' a''), (js ''---b'', js '' c''), (js ''title'', js '' T''),
              (js ''category'', js '' C''), (js ''date'', js '' D''), (js ''tags'', js '' x'')])
          (NL # js ''Body''))
     = Some \<lparr> id' = js ''a'', title = [], category = [], date = None, tags = None \<rparr>"
  by (simp add: eval_defs)

text \<open>
  Claim C4. A header line is split at its first colon; the value (and the
  key) are trimmed of surrounding whitespace before they are stored; a line
  without a colon changes nothing, and the lines before and after it are read
  as if it were not there. The lines so read are the lines of the header of
  the document.
\<close>

theorem header_line_first_colon:
  "(COLON \<notin> set k \<longrightarrow> parseLine fm (k @ COLON # v) = fm(trim k \<mapsto> trim v))
   \<and> (COLON \<notin> set l \<longrightarrow>
        parseLine fm l = fm
        \<and> parseLines (before @ l # after) = parseLines (before @ after))
   \<and> (ls \<noteq> [] \<and> (\<forall>x \<in> set ls. NL \<notin> set x \<and> \<not> prefix (js ''---'') x) \<longrightarrow>
        parseFrontMatter (document ls rest) = Some (toPostMeta (parseLines ls)))"
  by (simp add: parseLine_colon parseLine_skip parseLines_def parseFrontMatter_document)

theorem header_line_first_colon_witness:
  "parseLine Map.empty (js ''title '' @ COLON # js '' A: B '') = [js ''title'' \<mapsto> js ''A: B'']
   \<and> parseLines [js ''id: a'', js ''no colon here'', js ''title: T'']
       = parseLines [js ''id: a'', js ''title: T'']
   \<and> parseFrontMatter (document [js ''id: a'', js ''no colon here'', js ''title: T''] [])
       = Some \<lparr> id' = js ''a'', title = js ''T'', category = [], date = None, tags = None \<rparr>"
proof -
  have k: "COLON \<notin> set (js ''title '')" and l: "COLON \<notin> set (js ''no colon here'')"
    by (simp_all add: js_def COLON_def)
  have ls: "[js ''id: a'', js ''no colon here'', js ''title: T''] \<noteq> []
            \<and> (\<forall>x \<in> set [js ''id: a'', js ''no colon here'', js ''title: T''].
                  NL \<notin> set x \<and> \<not> prefix (js ''---'') x)"
    by (simp add: js_def NL_def)
  have t: "trim (js ''title '') = js ''title''" "trim (js '' A: B '') = js ''A: B''"
    by (simp_all add: trim_def isWhiteSpace_def js_def)
  have m: "toPostMeta (parseLines [js ''id: a'', js ''title: T''])
           = \<lparr> id' = js ''a'', title = js ''T'', category = [], date = None, tags = None \<rparr>"
    by (simp add: eval_defs)
  show ?thesis
    using header_line_first_colon
      [of "js ''title ''" Map.empty "js '' A: B ''" "js ''no colon here''" "[js ''id: a'']"
          "[js ''title: T'']" "[js ''id: a'', js ''no colon here'', js ''title: T'']" "[]"]
      k l ls t m
    by simp
qed

text \<open>
  Claim C3, as amended. A document that opens with the delimiter line and has
  no closing delimiter, no line break followed by \<open>---\<close> after that line:
  \<open>parseFrontMatter\<close> returns \<open>null\<close>, no metadata record, and raises no
  error; \<open>generateRSS\<close> leaves the document out of the posts and loads the
  documents before and after it as usual.
\<close>

theorem unclosed_header_dropped:
  assumes "\<not> includesStr (NL # js ''---'') rest"
  shows "parseFrontMatter (js ''---'' @ [NL] @ rest) = None
         \<and> loadPosts (before @ (file, js ''---'' @ [NL] @ rest) # after)
             = loadPosts before @ loadPosts after"
proof -
  have none: "parseFrontMatter (js ''---'' @ [NL] @ rest) = None"
    using matchFrontMatter_unclosed [OF assms] by (simp add: parseFrontMatter_def)
  then have "loadPosts ((file, js ''---'' @ [NL] @ rest) # after) = loadPosts after"
    by simp
  with none show ?thesis
    by (simp only: loadPosts_append)
qed

theorem unclosed_header_dropped_witness:
  "\<not> includesStr (NL # js ''---'') (js ''title: Draft'')
   \<and> loadPosts [(js ''a.md'', document [js ''id: a''] []),
                (js ''draft.md'', js ''---'' @ [NL] @ js ''title: Draft''),
                (js ''b.md'', document [js ''id: b''] [])]
     = loadPosts [(js ''a.md'', document [js ''id: a''] [])]
       @ loadPosts [(js ''b.md'', document [js ''id: b''] [])]"
  using unclosed_header_dropped [of "js ''title: Draft''" "[(js ''a.md'', document [js ''id: a''] [])]"
          "js ''draft.md''" "[(js ''b.md'', document [js ''id: b''] [])]"]
  by (simp add: includesStr_def js_def NL_def)

text \<open>
  The claim as written promises a metadata record and a place in the corpus:
  this document gets neither.
\<close>

theorem unclosed_header_counterexample:
  "parseFrontMatter (js ''---'' @ [NL] @ js ''title: Draft'') = None
   \<and> loadPosts [(js ''draft.md'', js ''---'' @ [NL] @ js ''title: Draft'')] = []"
  by (simp add: parseFrontMatter_def matchFrontMatter_def js_def NL_def suffix_def)

section \<open>The excerpt\<close>











text \<open>
  Claim C5, as amended. For a document that does not begin with the line
  \<open>---\<close>, \<open>parseFrontMatter\<close> returns \<open>null\<close>: no metadata record. For a
  document that does not begin with the characters \<open>---\<close>, \<open>getExcerpt\<close> removes
  nothing, and the excerpt is that of the whole input.
\<close>

theorem no_header_whole_input_is_body:
  "(\<not> prefix (js ''---'' @ [NL]) doc \<longrightarrow> parseFrontMatter doc = None)
   \<and> (\<not> prefix (js ''---'') doc \<longrightarrow>
        stripFrontMatter doc = doc \<and> getExcerpt doc = excerptOfBody doc)"
  by (simp add: parseFrontMatter_def matchFrontMatter_def stripFrontMatter_def getExcerpt_def)

theorem no_header_whole_input_is_body_witness:
  "\<not> prefix (js ''---'') (js ''Hello *world*'')
   \<and> parseFrontMatter (js ''Hello *world*'') = None
   \<and> getExcerpt (js ''Hello *world*'') = js ''Hello world...''"
  using no_header_whole_input_is_body [of "js ''Hello *world*''"]
  by (simp add: excerptOfBody_def firstPara_def splitStr_def isExcerptParagraph_def trim_def
      isWhiteSpace_def stripMarkup_def isMarkup_def plusStr_def orElse_def js_def NL_def)

text \<open>
  The claim as written fails on a document whose first line starts with
  \<open>---\<close> without being the delimiter line: there is no metadata record, and
  \<open>getExcerpt\<close> removes the text up to the next \<open>---\<close> at a line end, so the
  excerpt is not that of the whole input.
\<close>

theorem no_header_counterexample:
  "\<not> prefix (js ''---'' @ [NL]) (js ''---x---'' @ [NL] @ js ''Hello'')
   \<and> parseFrontMatter (js ''---x---'' @ [NL] @ js ''Hello'') = None
   \<and> stripFrontMatter (js ''---x---'' @ [NL] @ js ''Hello'') = js ''Hello''
   \<and> getExcerpt (js ''---x---'' @ [NL] @ js ''Hello'') = js ''Hello...''
   \<and> excerptOfBody (js ''---x---'' @ [NL] @ js ''Hello'') = js ''---x---'' @ [NL] @ js ''Hello...''"
  by (simp add: parseFrontMatter_def matchFrontMatter_def stripFrontMatter_def getExcerpt_def
      excerptOfBody_def firstPara_def splitStr_def isExcerptParagraph_def trim_def
      isWhiteSpace_def stripMarkup_def isMarkup_def plusStr_def orElse_def js_def NL_def)

text \<open>
  Claim C10. When every blank-line-separated segment of the body is blank or
  starts with \<open>#\<close> or \<open>!\<close>, \<open>getExcerpt\<close> returns the string \<open>undefined...\<close>;
  and \<open>getExcerpt\<close> never returns the empty string, so the fallback after
  \<open>||\<close> is never taken.
\<close>

theorem getExcerpt_undefined:
  "((\<forall>seg \<in> set (splitStr [NL, NL] (stripFrontMatter doc)).
       trim seg = [] \<or> prefix (js ''#'') seg \<or> prefix (js ''!'') seg)
    \<longrightarrow> getExcerpt doc = js ''undefined...'')
   \<and> getExcerpt doc \<noteq> []"
proof -
  have ne: "plusStr v (js ''...'') \<noteq> []" for v
    by (cases v) (simp_all add: plusStr_def js_def)
  have a: "getExcerpt doc \<noteq> []"
    by (simp add: getExcerpt_def excerptOfBody_def orElse_def ne)
  have b: "getExcerpt doc = js ''undefined...''"
    if "\<forall>seg \<in> set (splitStr [NL, NL] (stripFrontMatter doc)).
          trim seg = [] \<or> prefix (js ''#'') seg \<or> prefix (js ''!'') seg"
  proof -
    from that have "firstPara (stripFrontMatter doc) = None"
      by (auto simp: firstPara_def find_None_iff isExcerptParagraph_def)
    then show ?thesis
      by (simp add: getExcerpt_def excerptOfBody_def plusStr_def orElse_def js_def)
  qed
  from a b show ?thesis by blast
qed

theorem getExcerpt_undefined_witness:
  "splitStr [NL, NL] (stripFrontMatter (js ''# Title'' @ [NL, NL] @ js ''![a](b)''))
     = [js ''# Title'', js ''![a](b)'']
   \<and> getExcerpt (js ''# Title'' @ [NL, NL] @ js ''![a](b)'') = js ''undefined...''"
proof -
  have segs: "splitStr [NL, NL] (stripFrontMatter (js ''# Title'' @ [NL, NL] @ js ''![a](b)''))
              = [js ''# Title'', js ''![a](b)'']"
    by (simp add: splitStr_def stripFrontMatter_def js_def NL_def)
  have "\<forall>seg \<in> set [js ''# Title'', js ''![a](b)''].
          trim seg = [] \<or> prefix (js ''#'') seg \<or> prefix (js ''!'') seg"
    by (simp add: js_def)
  then show ?thesis
    using getExcerpt_undefined [of "js ''# Title'' @ [NL, NL] @ js ''![a](b)''"] segs
    by simp
qed

section \<open>XML escaping\<close>

lemma replaceAll_append: "replaceAll c r (a @ b) = replaceAll c r a @ replaceAll c r b"
  by (simp add: replaceAll_def)

lemma replaceAll_Nil: "replaceAll c r [] = []"
  by (simp add: replaceAll_def)

lemma escapeXml_append: "escapeXml (a @ b) = escapeXml a @ escapeXml b"
  by (simp add: escapeXml_def replaceAll_append)

lemma escapeXml_single: "escapeXml [c] = entityOf c"
  by (simp add: escapeXml_def entityOf_def replaceAll_def js_def)

lemma escapeXml_Cons: "escapeXml (c # cs) = entityOf c @ escapeXml cs"
  using escapeXml_append [of "[c]" cs] by (simp add: escapeXml_single)

lemma entityOf_clean: "set (entityOf c) \<inter> {0x3C, 0x3E, 0x22, 0x27} = {}"
  by (simp add: entityOf_def js_def)

text \<open>
  Claim C9. \<open>escapeXml\<close> replaces every \<open>&\<close>, \<open><\<close>, \<open>>\<close>, double quote and
  apostrophe of its input with the entity of that character and nothing else:
  no character of an entity written by an earlier pass is escaped by a later
  one. The output contains no \<open><\<close>, \<open>>\<close>, double quote or apostrophe.
\<close>

theorem escapeXml_entities:
  "escapeXml s = concat (map entityOf s)
   \<and> set (escapeXml s) \<inter> {0x3C, 0x3E, 0x22, 0x27} = {}"
proof -
  have eq: "escapeXml s = concat (map entityOf s)"
  proof (induction s)
    case Nil
    show ?case by (simp add: escapeXml_def replaceAll_def)
  next
    case (Cons c cs)
    then show ?case by (simp add: escapeXml_Cons)
  qed
  have "set (concat (map entityOf s)) \<inter> {0x3C, 0x3E, 0x22, 0x27} = {}"
    using entityOf_clean by (induction s) (auto simp: Int_Un_distrib2)
  with eq show ?thesis by simp
qed

section \<open>The order of the feed\<close>

lemma set_insertSorted: "set (insertSorted cmp x ys) = insert x (set ys)"
  by (induction ys) auto

lemma mset_insertSorted: "mset (insertSorted cmp x ys) = add_mset x (mset ys)"
  by (induction ys) auto

lemma mset_sortArray: "mset (sortArray cmp xs) = mset xs"
  by (induction xs) (simp_all add: sortArray_def mset_insertSorted)

lemma sorted_insertSorted:
  assumes "\<forall>y \<in> set ys. (sortCompare cmp x y \<le> 0) = (key y \<le> key x)"
    and "sorted_wrt (\<lambda>a b. key b \<le> (key a :: int)) ys"
  shows "sorted_wrt (\<lambda>a b. key b \<le> key a) (insertSorted cmp x ys)"
  using assms
proof (induction ys)
  case Nil
  then show ?case by simp
next
  case (Cons y ys)
  show ?case
  proof (cases "sortCompare cmp x y \<le> 0")
    case True
    with Cons.prems show ?thesis by fastforce
  next
    case False
    with Cons show ?thesis by (auto simp: set_insertSorted)
  qed
qed

lemma sorted_sortArray:
  assumes "\<forall>x \<in> set xs. \<forall>y \<in> set xs. (sortCompare cmp x y \<le> 0) = (key y \<le> key x)"
  shows "sorted_wrt (\<lambda>a b. key b \<le> (key a :: int)) (sortArray cmp xs)"
  using assms
proof (induction xs)
  case Nil
  show ?case by (simp add: sortArray_def)
next
  case (Cons x xs)
  have set_eq: "set (sortArray cmp xs) = set xs"
    using mset_sortArray [of cmp xs] by (metis set_mset_mset)
  have "sorted_wrt (\<lambda>a b. key b \<le> key a) (sortArray cmp xs)"
    using Cons by simp
  moreover have "\<forall>y \<in> set (sortArray cmp xs). (sortCompare cmp x y \<le> 0) = (key y \<le> key x)"
    using Cons.prems set_eq by simp
  ultimately have "sorted_wrt (\<lambda>a b. key b \<le> key a) (insertSorted cmp x (sortArray cmp xs))"
    by (intro sorted_insertSorted)
  then show ?case by (simp add: sortArray_def)
qed

lemma sorted_wrt_adjacent: "sorted_wrt R xs \<Longrightarrow> adjacent R xs"
  by (induction R xs rule: adjacent.induct) auto

lemma sorted_wrt_cong_set:
  "\<forall>a \<in> set xs. \<forall>b \<in> set xs. R a b = Q a b \<Longrightarrow> sorted_wrt R xs = sorted_wrt Q xs"
  by (induction xs) auto

lemma dated_compare:
  assumes "\<not> falsy (date a) \<and> timeOf getTime a \<noteq> None"
    and "\<not> falsy (date b) \<and> timeOf getTime b \<noteq> None"
  shows "(sortCompare (compareDates getTime) a b \<le> 0)
           = (the (timeOf getTime b) \<le> the (timeOf getTime a))"
    and "notBefore (timeOf getTime a) (timeOf getTime b)
           = (the (timeOf getTime b) \<le> the (timeOf getTime a))"
  using assms
  by (auto simp: sortCompare_def compareDates_def timeOf_def falsy_def notBefore_def
      split: option.splits)

text \<open>
  Claim C6, as amended. When every loaded post has a date that is not empty
  and that \<open>Date\<close> parses to a time value, the items are emitted newest
  first: one item for each post, in an order in which the parsed date of a
  post is not before that of any later post, of the next one in particular;
  and the emitted posts are the loaded ones.
\<close>

theorem rss_newest_first:
  assumes "\<forall>p \<in> set (loadPosts files). \<not> falsy (date p) \<and> timeOf getTime p \<noteq> None"
  shows "emittedItems getTime toUTCString files
           = map (rssItem toUTCString) (sortedPosts getTime files)
         \<and> sorted_wrt (\<lambda>a b. notBefore (timeOf getTime a) (timeOf getTime b))
             (sortedPosts getTime files)
         \<and> adjacent (\<lambda>a b. notBefore (timeOf getTime a) (timeOf getTime b))
             (sortedPosts getTime files)
         \<and> mset (sortedPosts getTime files) = mset (loadPosts files)"
proof -
  let ?key = "\<lambda>p. the (timeOf getTime p)"
  let ?out = "sortedPosts getTime files"
  have perm: "mset ?out = mset (loadPosts files)"
    by (simp add: sortedPosts_def mset_sortArray)
  then have set_eq: "set ?out = set (loadPosts files)"
    by (metis set_mset_mset)
  have "sorted_wrt (\<lambda>a b. ?key b \<le> ?key a) ?out"
    unfolding sortedPosts_def
    using assms by (intro sorted_sortArray) (simp add: dated_compare(1))
  moreover have "\<forall>a \<in> set ?out. \<forall>b \<in> set ?out.
      notBefore (timeOf getTime a) (timeOf getTime b) = (?key b \<le> ?key a)"
    using assms set_eq by (simp add: dated_compare(2))
  ultimately have s: "sorted_wrt (\<lambda>a b. notBefore (timeOf getTime a) (timeOf getTime b)) ?out"
    using sorted_wrt_cong_set [of ?out "\<lambda>a b. notBefore (timeOf getTime a) (timeOf getTime b)"
        "\<lambda>a b. ?key b \<le> ?key a"] by blast
  from s perm show ?thesis
    using sorted_wrt_adjacent by (simp add: emittedItems_def)
qed

theorem rss_newest_first_witness:
  "map id' (sortedPosts exampleTime
      [(js ''a.md'', document [js ''id: a'', js ''date: 2025-01-01''] (NL # js ''Old.'')),
       (js ''c.md'', document [js ''id: c'', js ''date: 2026-01-01''] (NL # js ''New.''))])
     = [js ''c'', js ''a'']
   \<and> adjacent (\<lambda>a b. notBefore (timeOf exampleTime a) (timeOf exampleTime b))
       (sortedPosts exampleTime
         [(js ''a.md'', document [js ''id: a'', js ''date: 2025-01-01''] (NL # js ''Old.'')),
          (js ''c.md'', document [js ''id: c'', js ''date: 2026-01-01''] (NL # js ''New.''))])"
proof -
  let ?files = "[(js ''a.md'', document [js ''id: a'', js ''date: 2025-01-01''] (NL # js ''Old.'')),
       (js ''c.md'', document [js ''id: c'', js ''date: 2026-01-01''] (NL # js ''New.''))]"
  have posts: "loadPosts ?files =
      [\<lparr> id' = js ''a'', title = [], category = [], date = Some (js ''2025-01-01''), tags = None,
          excerpt = js ''Old....'' \<rparr>,
       \<lparr> id' = js ''c'', title = [], category = [], date = Some (js ''2026-01-01''), tags = None,
          excerpt = js ''New....'' \<rparr>]"
    by (simp add: eval_defs)
  have hyp: "\<forall>p \<in> set (loadPosts ?files). \<not> falsy (date p) \<and> timeOf exampleTime p \<noteq> None"
    unfolding posts by (simp add: falsy_def timeOf_def exampleTime_def js_def)
  have "map id' (sortedPosts exampleTime ?files) = [js ''c'', js ''a'']"
    unfolding sortedPosts_def posts
    by (simp add: sortArray_def sortCompare_def compareDates_def falsy_def exampleTime_def js_def)
  then show ?thesis
    using rss_newest_first [OF hyp] by simp
qed

text \<open>
  The claim as written asks only that every post has a date. The date
  31/12/2025, written day first, is one that \<open>Date\<close> does not read: its time
  value is \<open>NaN\<close>, the comparator returns \<open>NaN\<close>, and the older post stays
  before the newer one. Whatever the order, the item with that date has a
  neighbour, and a comparison with \<open>NaN\<close> is false.
\<close>

theorem rss_unparsed_date_counterexample:
  "map date (loadPosts
        [(js ''a.md'', document [js ''id: a'', js ''date: 2025-01-01''] (NL # js ''Old.'')),
         (js ''b.md'', document [js ''id: b'', js ''date: 31/12/2025''] (NL # js ''Draft.'')),
         (js ''c.md'', document [js ''id: c'', js ''date: 2026-01-01''] (NL # js ''New.''))])
       = [Some (js ''2025-01-01''), Some (js ''31/12/2025''), Some (js ''2026-01-01'')]
   \<and> map id' (sortedPosts exampleTime
        [(js ''a.md'', document [js ''id: a'', js ''date: 2025-01-01''] (NL # js ''Old.'')),
         (js ''b.md'', document [js ''id: b'', js ''date: 31/12/2025''] (NL # js ''Draft.'')),
         (js ''c.md'', document [js ''id: c'', js ''date: 2026-01-01''] (NL # js ''New.''))])
       = [js ''a'', js ''b'', js ''c'']
   \<and> \<not> adjacent (\<lambda>a b. notBefore (timeOf exampleTime a) (timeOf exampleTime b))
        (sortedPosts exampleTime
          [(js ''a.md'', document [js ''id: a'', js ''date: 2025-01-01''] (NL # js ''Old.'')),
           (js ''b.md'', document [js ''id: b'', js ''date: 31/12/2025''] (NL # js ''Draft.'')),
           (js ''c.md'', document [js ''id: c'', js ''date: 2026-01-01''] (NL # js ''New.''))])"
proof -
  let ?files = "[(js ''a.md'', document [js ''id: a'', js ''date: 2025-01-01''] (NL # js ''Old.'')),
         (js ''b.md'', document [js ''id: b'', js ''date: 31/12/2025''] (NL # js ''Draft.'')),
         (js ''c.md'', document [js ''id: c'', js ''date: 2026-01-01''] (NL # js ''New.''))]"
  have posts: "loadPosts ?files =
      [\<lparr> id' = js ''a'', title = [], category = [], date = Some (js ''2025-01-01''), tags = None,
          excerpt = js ''Old....'' \<rparr>,
       \<lparr> id' = js ''b'', title = [], category = [], date = Some (js ''31/12/2025''), tags = None,
          excerpt = js ''Draft....'' \<rparr>,
       \<lparr> id' = js ''c'', title = [], category = [], date = Some (js ''2026-01-01''), tags = None,
          excerpt = js ''New....'' \<rparr>]"
    by (simp add: eval_defs)
  show ?thesis
    unfolding sortedPosts_def posts
    by (simp add: sortArray_def sortCompare_def compareDates_def falsy_def exampleTime_def
        timeOf_def notBefore_def js_def)
qed

section \<open>Heading levels\<close>

text \<open>
  Claim C7. Whenever the field \<open>level\<close> of a block is present, its value is
  1, 2 or 3. The heading rule gives a heading the number of its \<open>#\<close>, at most
  3; a line of four or more \<open>#\<close> yields level 3 or no level at all.
\<close>

theorem level_one_two_three:
  "(level b = Some l \<longrightarrow> levelValue l \<in> {1, 2, 3})
   \<and> (level (classifyLine clamp line) = Some l' \<longrightarrow> levelValue l' = min 3 (hashCount line))
   \<and> (4 \<le> hashCount line \<longrightarrow> level (classifyLine clamp line) \<in> {None, Some L3})"
proof -
  have "levelValue l \<in> {1, 2, 3}"
    by (cases l) simp_all
  moreover have "level (classifyLine clamp line) = Some l' \<longrightarrow>
      levelValue l' = min 3 (hashCount line)"
    by (auto simp: classifyLine_def Let_def emptyBlock_def clampLevel_def)
  moreover have "4 \<le> hashCount line \<longrightarrow> level (classifyLine clamp line) \<in> {None, Some L3}"
    by (simp add: classifyLine_def Let_def emptyBlock_def clampLevel_def)
  ultimately show ?thesis by blast
qed

theorem level_one_two_three_witness:
  "level (classifyLine True (js ''#### Deep'')) = Some L3
   \<and> levelValue L3 \<in> {1, 2, 3}
   \<and> levelValue L3 = min 3 (hashCount (js ''#### Deep''))
   \<and> 4 \<le> hashCount (js ''#### Deep'')
   \<and> level (classifyLine False (js ''#### Deep'')) = None"
proof -
  have n: "hashCount (js ''#### Deep'') = 4"
    by (simp add: hashCount_def js_def HASH_def)
  have b: "level (classifyLine True (js ''#### Deep'')) = Some L3"
    by (simp add: classifyLine_def Let_def hashCount_def HASH_def emptyBlock_def clampLevel_def
        js_def)
  have c: "level (classifyLine False (js ''#### Deep'')) = None"
    by (simp add: classifyLine_def Let_def hashCount_def HASH_def emptyBlock_def js_def)
  show ?thesis
    using level_one_two_three [of "classifyLine True (js ''#### Deep'')" L3 True "js ''#### Deep''" L3]
      n b c
    by simp
qed

section \<open>The not-found state of the page\<close>

text \<open>
  Claim C8. For a requested identifier and successfully loaded metadata, the
  effect sets the not-found state exactly when no loaded post has that
  identifier, and the page then renders the 404 state exactly in that case.
  The lookup is a test that returns a truth value; a failed load is caught,
  and the effect still ends with the loading flag off.
\<close>

theorem notFound_iff_absent:
  "pid \<noteq> [] \<Longrightarrow>
     notFound (loadMetadata (Inr metadata) (Some pid) s) = (pid \<notin> set (map id' metadata))
     \<and> (render (loadMetadata (Inr metadata) (Some pid) s) = NotFoundPage)
         = (pid \<notin> set (map id' metadata))
     \<and> loadMetadata (Inl e) (Some pid) s = s\<lparr>loading := False\<rparr>"
  by (auto simp: loadMetadata_def render_def Let_def list_ex_iff)

theorem notFound_iff_absent_witness:
  "js ''missing'' \<noteq> []
   \<and> render (loadMetadata
        (Inr [\<lparr> id' = js ''rust-cli'', title = js ''T'', category = js ''C'', date = None,
                 tags = None \<rparr>])
        (Some (js ''missing'')) initialState) = NotFoundPage
   \<and> render (loadMetadata
        (Inr [\<lparr> id' = js ''rust-cli'', title = js ''T'', category = js ''C'', date = None,
                 tags = None \<rparr>])
        (Some (js ''rust-cli'')) (initialState \<lparr>notFound := True\<rparr>)) = PostsPage"
proof -
  let ?m = "[\<lparr> id' = js ''rust-cli'', title = js ''T'', category = js ''C'', date = None,
               tags = None \<rparr>]"
  have a: "js ''missing'' \<noteq> []" and b: "js ''rust-cli'' \<noteq> []"
    by (simp_all add: js_def)
  have c: "js ''missing'' \<notin> set (map id' ?m)" and d: "js ''rust-cli'' \<in> set (map id' ?m)"
    by (simp_all add: js_def)
  have "render (loadMetadata (Inr ?m) (Some (js ''missing'')) initialState) = NotFoundPage"
    using notFound_iff_absent [OF a, of ?m initialState] c by blast
  moreover have "notFound (loadMetadata (Inr ?m) (Some (js ''rust-cli''))
                    (initialState \<lparr>notFound := True\<rparr>)) = False"
    using notFound_iff_absent [OF b, of ?m "initialState \<lparr>notFound := True\<rparr>"] d by blast
  then have "render (loadMetadata (Inr ?m) (Some (js ''rust-cli''))
                (initialState \<lparr>notFound := True\<rparr>)) = PostsPage"
    by (simp add: render_def loadMetadata_def Let_def)
  ultimately show ?thesis using a by blast
qed

end
